theory Spec2Isabelle
  imports Complex_Main
begin

section \<open>Cells of a pandas float64 series\<close>

text \<open>
  Every column handled by the backtester is a pandas series of float64 cells. A cell is
  modelled as a finite number or one of the three IEEE special values. Finite arithmetic
  is idealised: a finite cell carries a real number, so rounding, overflow to infinity
  and the sign of zero are not modelled. The special values follow IEEE 754: NaN
  propagates through every operation and compares unequal to everything, itself
  included; the infinities follow the usual sign rules.
\<close>

datatype float64 = Fin real | PInf | NInf | NaN

fun is_fin :: "float64 \<Rightarrow> bool" where
  "is_fin (Fin a) = True"
| "is_fin PInf = False"
| "is_fin NInf = False"
| "is_fin NaN = False"

fun fneg :: "float64 \<Rightarrow> float64" where
  "fneg (Fin a) = Fin (- a)"
| "fneg PInf = NInf"
| "fneg NInf = PInf"
| "fneg NaN = NaN"

fun fadd :: "float64 \<Rightarrow> float64 \<Rightarrow> float64" where
  "fadd (Fin a) (Fin b) = Fin (a + b)"
| "fadd (Fin a) PInf = PInf"
| "fadd (Fin a) NInf = NInf"
| "fadd PInf (Fin b) = PInf"
| "fadd PInf PInf = PInf"
| "fadd PInf NInf = NaN"
| "fadd NInf (Fin b) = NInf"
| "fadd NInf NInf = NInf"
| "fadd NInf PInf = NaN"
| "fadd NaN y = NaN"
| "fadd x NaN = NaN"

definition fsub :: "float64 \<Rightarrow> float64 \<Rightarrow> float64" where
  "fsub x y = fadd x (fneg y)"

text \<open>The sign of a product or quotient with an infinite operand.\<close>

definition signed_inf :: "bool \<Rightarrow> float64" where
  "signed_inf positive = (if positive then PInf else NInf)"

fun fmul :: "float64 \<Rightarrow> float64 \<Rightarrow> float64" where
  "fmul (Fin a) (Fin b) = Fin (a * b)"
| "fmul (Fin a) PInf = (if a = 0 then NaN else signed_inf (0 < a))"
| "fmul (Fin a) NInf = (if a = 0 then NaN else signed_inf (a < 0))"
| "fmul PInf (Fin b) = (if b = 0 then NaN else signed_inf (0 < b))"
| "fmul NInf (Fin b) = (if b = 0 then NaN else signed_inf (b < 0))"
| "fmul PInf PInf = PInf"
| "fmul PInf NInf = NInf"
| "fmul NInf PInf = NInf"
| "fmul NInf NInf = PInf"
| "fmul NaN y = NaN"
| "fmul x NaN = NaN"

text \<open>
  numpy and pandas divide without raising: a nonzero number over zero is an infinity,
  zero over zero is NaN.
\<close>

fun fdiv :: "float64 \<Rightarrow> float64 \<Rightarrow> float64" where
  "fdiv (Fin a) (Fin b) =
     (if b = 0 then (if a = 0 then NaN else signed_inf (0 < a)) else Fin (a / b))"
| "fdiv (Fin a) PInf = Fin 0"
| "fdiv (Fin a) NInf = Fin 0"
| "fdiv PInf (Fin b) = signed_inf (0 \<le> b)"
| "fdiv NInf (Fin b) = signed_inf (b < 0)"
| "fdiv PInf PInf = NaN"
| "fdiv PInf NInf = NaN"
| "fdiv NInf PInf = NaN"
| "fdiv NInf NInf = NaN"
| "fdiv NaN y = NaN"
| "fdiv x NaN = NaN"

fun fsqrt :: "float64 \<Rightarrow> float64" where
  "fsqrt (Fin a) = (if a < 0 then NaN else Fin (sqrt a))"
| "fsqrt PInf = PInf"
| "fsqrt NInf = NaN"
| "fsqrt NaN = NaN"

fun fabs :: "float64 \<Rightarrow> float64" where
  "fabs (Fin a) = Fin \<bar>a\<bar>"
| "fabs PInf = PInf"
| "fabs NInf = PInf"
| "fabs NaN = NaN"

text \<open>The comparisons \<open>==\<close>, \<open><\<close> and \<open><=\<close> of Python and numpy on floats.\<close>

fun feq :: "float64 \<Rightarrow> float64 \<Rightarrow> bool" where
  "feq (Fin a) (Fin b) = (a = b)"
| "feq PInf PInf = True"
| "feq NInf NInf = True"
| "feq x y = False"

fun flt :: "float64 \<Rightarrow> float64 \<Rightarrow> bool" where
  "flt (Fin a) (Fin b) = (a < b)"
| "flt (Fin a) PInf = True"
| "flt NInf (Fin b) = True"
| "flt NInf PInf = True"
| "flt x y = False"

definition fle :: "float64 \<Rightarrow> float64 \<Rightarrow> bool" where
  "fle x y = (flt x y \<or> feq x y)"

text \<open>A comparison result multiplied by \<open>1.0\<close>.\<close>

definition bool_to_float :: "bool \<Rightarrow> float64" where
  "bool_to_float b = (if b then Fin 1 else Fin 0)"

section \<open>Series operations of pandas\<close>

text \<open>Elementwise operation on two series that share their index.\<close>

definition series_op ::
  "(float64 \<Rightarrow> float64 \<Rightarrow> float64) \<Rightarrow> float64 list \<Rightarrow> float64 list \<Rightarrow> float64 list" where
  "series_op f xs ys = map (\<lambda>(x, y). f x y) (zip xs ys)"

text \<open>\<open>shift(1)\<close>: every value moves one row down, the first row becomes NaN.\<close>

definition shift1 :: "float64 list \<Rightarrow> float64 list" where
  "shift1 xs = take (length xs) (NaN # xs)"

text \<open>\<open>diff()\<close>: \<open>x[t] - x[t-1]\<close>, NaN in the first row.\<close>

definition series_diff :: "float64 list \<Rightarrow> float64 list" where
  "series_diff xs = series_op fsub xs (shift1 xs)"

text \<open>
  \<open>pct_change()\<close>: \<open>x[t] / x[t-1] - 1\<close>, NaN in the first row. The columns it is
  applied to are taken as they stand: no NaN row is padded with the value before it.
\<close>

definition pct_change :: "float64 list \<Rightarrow> float64 list" where
  "pct_change xs = map (\<lambda>q. fsub q (Fin 1)) (series_op fdiv xs (shift1 xs))"

text \<open>
  \<open>cumsum()\<close> and \<open>cumprod()\<close> with the default \<open>skipna=True\<close>: a NaN row stays NaN
  and does not enter the running value.
\<close>

fun cum_from ::
  "(float64 \<Rightarrow> float64 \<Rightarrow> float64) \<Rightarrow> float64 \<Rightarrow> float64 list \<Rightarrow> float64 list" where
  "cum_from f acc [] = []"
| "cum_from f acc (x # xs) =
     (if x = NaN then NaN # cum_from f acc xs
      else f acc x # cum_from f (f acc x) xs)"

definition cumsum :: "float64 list \<Rightarrow> float64 list" where
  "cumsum xs = cum_from fadd (Fin 0) xs"


text \<open>The values a reduction with \<open>skipna=True\<close> looks at.\<close>

definition dropna :: "float64 list \<Rightarrow> float64 list" where
  "dropna xs = filter (\<lambda>x. x \<noteq> NaN) xs"

definition fsum :: "float64 list \<Rightarrow> float64" where
  "fsum xs = foldl fadd (Fin 0) xs"


text \<open>\<open>Series.max()\<close>: the largest value that is not NaN, NaN when there is none.\<close>

definition py_max :: "float64 \<Rightarrow> float64 \<Rightarrow> float64" where
  "py_max a b = (if flt a b then b else a)"

definition series_max :: "float64 list \<Rightarrow> float64" where
  "series_max xs =
     (case dropna xs of [] \<Rightarrow> NaN | v # vs \<Rightarrow> foldl py_max v vs)"

text \<open>\<open>fillna(v)\<close> and \<open>replace(olds, v)\<close>.\<close>

definition fillna :: "float64 \<Rightarrow> float64 list \<Rightarrow> float64 list" where
  "fillna v xs = map (\<lambda>x. if x = NaN then v else x) xs"

definition replace_values :: "float64 list \<Rightarrow> float64 \<Rightarrow> float64 list \<Rightarrow> float64 list" where
  "replace_values olds v xs = map (\<lambda>x. if list_ex (feq x) olds then v else x) xs"

section \<open>performance.py\<close>

text \<open>
  \<open>np.mean\<close> and \<open>np.std\<close> of a series call the series' own \<open>mean()\<close> and
  \<open>std(ddof=0)\<close>: NaN rows are skipped and the standard deviation is the population one.
\<close>

definition series_mean :: "float64 list \<Rightarrow> float64" where
  "series_mean xs =
     (let v = dropna xs in
      if v = [] then NaN else fdiv (fsum v) (Fin (real (length v))))"

definition series_std :: "float64 list \<Rightarrow> float64" where
  "series_std xs =
     (let v = dropna xs in
      if v = [] then NaN
      else
        let avg = fdiv (fsum v) (Fin (real (length v)));
            sqr = map (\<lambda>x. fmul (fsub avg x) (fsub avg x)) v
        in fsqrt (fdiv (fsum sqr) (Fin (real (length v)))))"

definition create_sharpe_ratio :: "float64 list \<Rightarrow> real \<Rightarrow> float64" where
  "create_sharpe_ratio returns periods =
     fdiv (fmul (fsqrt (Fin periods)) (series_mean returns)) (series_std returns)"

text \<open>
  \<open>create_drawdowns\<close>: \<open>hwm = [0]\<close>, the series \<open>drawdown\<close> and \<open>duration\<close> start
  as NaN in every row, and the loop runs over \<open>t = 1 .. len - 1\<close>. The loop carries the
  last high-water mark \<open>hwm[t-1]\<close> and the last duration \<open>duration[t-1]\<close>; each
  step yields the row \<open>(hwm[t], drawdown[t], duration[t])\<close>.
\<close>

fun drawdown_loop :: "float64 \<Rightarrow> float64 \<Rightarrow> float64 list \<Rightarrow> (float64 \<times> float64 \<times> float64) list" where
  "drawdown_loop hwm_prev dur_prev [] = []"
| "drawdown_loop hwm_prev dur_prev (e # es) =
     (let cur_hwm = py_max hwm_prev e;
          dd = fsub cur_hwm e;
          dur = (if feq dd (Fin 0) then Fin 0 else fadd dur_prev (Fin 1))
      in (cur_hwm, dd, dur) # drawdown_loop cur_hwm dur es)"

definition drawdown_rows :: "float64 list \<Rightarrow> (float64 \<times> float64 \<times> float64) list" where
  "drawdown_rows equity_curve = drawdown_loop (Fin 0) NaN (tl equity_curve)"

definition hwm_list :: "float64 list \<Rightarrow> float64 list" where
  "hwm_list equity_curve = Fin 0 # map fst (drawdown_rows equity_curve)"

definition drawdown_series :: "float64 list \<Rightarrow> float64 list" where
  "drawdown_series equity_curve =
     (if equity_curve = [] then []
      else NaN # map (\<lambda>r. fst (snd r)) (drawdown_rows equity_curve))"

definition duration_series :: "float64 list \<Rightarrow> float64 list" where
  "duration_series equity_curve =
     (if equity_curve = [] then []
      else NaN # map (\<lambda>r. snd (snd r)) (drawdown_rows equity_curve))"

definition create_drawdowns :: "float64 list \<Rightarrow> float64 \<times> float64" where
  "create_drawdowns equity_curve =
     (series_max (drawdown_series equity_curve), series_max (duration_series equity_curve))"

section \<open>mr\_spy\_iwm.py: the long/short market latch\<close>

text \<open>
  The \<open>pairs\<close> table, one list per column. The two close columns are named after the
  symbols in the source (\<open>spy_close\<close>, \<open>iwm_close\<close>).
\<close>

record pairs_frame =
  sym1_close :: "float64 list"
  sym2_close :: "float64 list"
  zscore :: "float64 list"
  longs :: "float64 list"
  shorts :: "float64 list"
  exits :: "float64 list"
  long_market :: "float64 list"
  short_market :: "float64 list"

text \<open>
  One pass of the loop body over a row \<open>(longs, shorts, exits)\<close>: three independent
  \<open>if\<close> statements, in the source's order, on the integer variables
  \<open>long_market\<close> and \<open>short_market\<close>.
\<close>

definition latch_step :: "int \<times> int \<Rightarrow> float64 \<times> float64 \<times> float64 \<Rightarrow> int \<times> int" where
  "latch_step st row =
     (case st of (lm, sm) \<Rightarrow>
      case row of (l, s, e) \<Rightarrow>
        let lm1 = (if feq l (Fin 1) then 1 else lm);
            sm1 = (if feq s (Fin 1) then 1 else sm)
        in if feq e (Fin 1) then (0, 0) else (lm1, sm1))"

text \<open>
  The loop: after the three tests the two variables are written to row \<open>i\<close> of the
  float columns \<open>long_market\<close> and \<open>short_market\<close>. The write
  \<open>pairs.iloc[i]['long_market'] = long_market\<close> is taken to reach the table.
\<close>

fun latch_loop :: "int \<times> int \<Rightarrow> (float64 \<times> float64 \<times> float64) list \<Rightarrow> (float64 \<times> float64) list" where
  "latch_loop st [] = []"
| "latch_loop st (row # rows) =
     (let st' = latch_step st row
      in (Fin (of_int (fst st')), Fin (of_int (snd st'))) # latch_loop st' rows)"

text \<open>
  The loop of \<open>create_long_short_market_signals\<close> on three given trigger columns,
  started as the source starts it with both variables 0; the result is the pair of
  columns \<open>(long_market, short_market)\<close>.
\<close>

definition market_latch ::
  "float64 list \<Rightarrow> float64 list \<Rightarrow> float64 list \<Rightarrow> float64 list \<times> float64 list" where
  "market_latch ls ss es =
     (let out = latch_loop (0, 0) (zip ls (zip ss es)) in (map fst out, map snd out))"

definition create_long_short_market_signals :: "pairs_frame \<Rightarrow> real \<Rightarrow> real \<Rightarrow> pairs_frame" where
  "create_long_short_market_signals pairs z_entry_threshold z_exit_threshold =
     (let ls = map (\<lambda>z. bool_to_float (fle z (Fin (- z_entry_threshold)))) (zscore pairs);
          ss = map (\<lambda>z. bool_to_float (fle (Fin z_entry_threshold) z)) (zscore pairs);
          es = map (\<lambda>z. bool_to_float (fle (fabs z) (Fin z_exit_threshold))) (zscore pairs);
          out = market_latch ls ss es
      in pairs\<lparr>longs := ls, shorts := ss, exits := es,
               long_market := fst out, short_market := snd out\<rparr>)"

section \<open>mr\_spy\_iwm.py: the pairs portfolio\<close>


text \<open>
  The period returns after the three in-place cleaning steps: \<open>fillna(0.0)\<close>,
  \<open>replace([inf, -inf], 0.0)\<close>, \<open>replace(-1.0, 0.0)\<close>.
\<close>

definition cleaned_returns :: "float64 list \<Rightarrow> float64 list" where
  "cleaned_returns total_col =
     replace_values [Fin (- 1)] (Fin 0)
       (replace_values [PInf, NInf] (Fin 0)
         (fillna (Fin 0) (pct_change total_col)))"


section \<open>RandomForecastStrategy.py and ma\_cross.py: the portfolio accountants\<close>

record bars_frame =
  Open_col :: "float64 list"
  Close_col :: "float64 list"

text \<open>The attributes of a portfolio object, as \<open>__init__\<close> sets them.\<close>

record portfolio_self =
  bars :: bars_frame
  signals :: "float64 list"
  initial_capital :: real
  positions :: "float64 list"

text \<open>
  The columns \<open>holdings\<close>, \<open>cash\<close>, \<open>total\<close> and \<open>returns\<close> of the table
  \<open>backtest_portfolio\<close> returns.
\<close>

record portfolio_frame =
  holdings :: "float64 list"
  cash :: "float64 list"
  total :: "float64 list"
  returns_col :: "float64 list"

text \<open>\<open>positions[self.symbol] = 100 * self.signals['signal']\<close>, in both classes.\<close>

definition MarketOnOpenPortfolio_generate_positions :: "float64 list \<Rightarrow> float64 list" where
  "MarketOnOpenPortfolio_generate_positions sigs = map (fmul (Fin 100)) sigs"

definition MarketOnClosePortfolio_generate_positions :: "float64 list \<Rightarrow> float64 list" where
  "MarketOnClosePortfolio_generate_positions sigs = map (fmul (Fin 100)) sigs"

definition MarketOnOpenPortfolio_init :: "bars_frame \<Rightarrow> float64 list \<Rightarrow> real \<Rightarrow> portfolio_self" where
  "MarketOnOpenPortfolio_init b sigs capital =
     \<lparr>bars = b, signals = sigs, initial_capital = capital,
      positions = MarketOnOpenPortfolio_generate_positions sigs\<rparr>"

definition MarketOnClosePortfolio_init :: "bars_frame \<Rightarrow> float64 list \<Rightarrow> real \<Rightarrow> portfolio_self" where
  "MarketOnClosePortfolio_init b sigs capital =
     \<lparr>bars = b, signals = sigs, initial_capital = capital,
      positions = MarketOnClosePortfolio_generate_positions sigs\<rparr>"


text \<open>The close-fill accountant works on the symbol's column as a series: no row sum.\<close>

definition MarketOnClosePortfolio_backtest_portfolio :: "portfolio_self \<Rightarrow> portfolio_frame" where
  "MarketOnClosePortfolio_backtest_portfolio self =
     (let pos_diff = series_diff (positions self);
          h = series_op fmul (positions self) (Close_col (bars self));
          c = map (fsub (Fin (initial_capital self)))
                (cumsum (series_op fmul pos_diff (Close_col (bars self))));
          t = series_op fadd c h
      in \<lparr>holdings = h, cash = c, total = t, returns_col = pct_change t\<rparr>)"

section \<open>The position sizer as the specification words it\<close>

datatype sizer_error = InvalidSignalValue

definition valid_signal :: "float64 \<Rightarrow> bool" where
  "valid_signal s = (s = Fin (- 1) \<or> s = Fin 0 \<or> s = Fin 1)"

definition size_positions_spec :: "float64 list \<Rightarrow> real \<Rightarrow> sizer_error + float64 list" where
  "size_positions_spec sigs lot_size =
     (if list_all valid_signal sigs then Inr (map (fmul (Fin lot_size)) sigs)
      else Inl InvalidSignalValue)"

section \<open>Predicates and reference formulas used in the statements\<close>

text \<open>
  \<open>armed entry ex t\<close>: the entry trigger has fired on some bar \<open>s \<le> t\<close> and the exit
  trigger has fired on no bar from \<open>s\<close> to \<open>t\<close>.
\<close>

definition armed :: "float64 list \<Rightarrow> float64 list \<Rightarrow> nat \<Rightarrow> bool" where
  "armed entry ex t =
     list_ex (\<lambda>s. feq (entry ! s) (Fin 1) \<and> list_all (\<lambda>u. \<not> feq (ex ! u) (Fin 1)) [s..<Suc t])
       [0..<Suc t]"

text \<open>The three tests of the loop body, on a row \<open>(longs, shorts, exits)\<close>.\<close>

definition row_long :: "float64 \<times> float64 \<times> float64 \<Rightarrow> bool" where
  "row_long r = feq (fst r) (Fin 1)"

definition row_short :: "float64 \<times> float64 \<times> float64 \<Rightarrow> bool" where
  "row_short r = feq (fst (snd r)) (Fin 1)"

definition row_exit :: "float64 \<times> float64 \<times> float64 \<Rightarrow> bool" where
  "row_exit r = feq (snd (snd r)) (Fin 1)"

text \<open>An entry has fired on some row and no exit has fired on that row or after it.\<close>

definition fired_since_exit :: "('r \<Rightarrow> bool) \<Rightarrow> ('r \<Rightarrow> bool) \<Rightarrow> 'r list \<Rightarrow> bool" where
  "fired_since_exit ent ex rows =
     (\<exists>s<length rows. ent (rows ! s) \<and> (\<forall>u. s \<le> u \<and> u < length rows \<longrightarrow> \<not> ex (rows ! u)))"

text \<open>Mean and population standard deviation of a list of numbers.\<close>

definition mean_real :: "real list \<Rightarrow> real" where
  "mean_real rs = sum_list rs / real (length rs)"

definition stdev_real :: "real list \<Rightarrow> real" where
  "stdev_real rs = sqrt (sum_list (map (\<lambda>r. (r - mean_real rs)\<^sup>2) rs) / real (length rs))"


section \<open>Facts about cells and series\<close>

lemma fsum_Fin: "foldl fadd (Fin a) (map Fin xs) = Fin (a + sum_list xs)"
  by (induction xs arbitrary: a) (simp_all add: add.assoc)

lemma fadd_NaN_right [simp]: "fadd x NaN = NaN" by (cases x) simp_all
lemma fmul_NaN_right [simp]: "fmul x NaN = NaN" by (cases x) simp_all
lemma fdiv_NaN_right [simp]: "fdiv x NaN = NaN" by (cases x) simp_all
lemma fsub_NaN_right [simp]: "fsub x NaN = NaN" by (simp add: fsub_def)
lemma fsub_NaN_left [simp]: "fsub NaN y = NaN" by (simp add: fsub_def)
lemma fsub_Fin [simp]: "fsub (Fin a) (Fin b) = Fin (a - b)" by (simp add: fsub_def)


lemma is_fin_conv: "is_fin x = (\<exists>a. x = Fin a)" by (cases x) simp_all


lemma length_series_op [simp]: "length (series_op f xs ys) = min (length xs) (length ys)"
  by (simp add: series_op_def)

lemma nth_series_op:
  "t < length xs \<Longrightarrow> t < length ys \<Longrightarrow> series_op f xs ys ! t = f (xs ! t) (ys ! t)"
  by (simp add: series_op_def)

lemma length_shift1 [simp]: "length (shift1 xs) = length xs"
  by (simp add: shift1_def)

lemma shift1_nth_0: "xs \<noteq> [] \<Longrightarrow> shift1 xs ! 0 = NaN"
  by (cases xs) (simp_all add: shift1_def)


lemma length_series_diff [simp]: "length (series_diff xs) = length xs"
  by (simp add: series_diff_def)

lemma series_diff_nth_0: "xs \<noteq> [] \<Longrightarrow> series_diff xs ! 0 = NaN"
  by (simp add: series_diff_def nth_series_op shift1_nth_0)


lemma length_pct_change [simp]: "length (pct_change xs) = length xs"
  by (simp add: pct_change_def)


lemma length_cum_from [simp]: "length (cum_from f acc xs) = length xs"
  by (induction xs arbitrary: acc) simp_all

lemma cum_from_nth_0: "xs \<noteq> [] \<Longrightarrow> cum_from f acc xs ! 0 = (if xs ! 0 = NaN then NaN else f acc (xs ! 0))"
  by (cases xs) simp_all



subsection \<open>Mean and standard deviation of finite values\<close>

lemma dropna_Fin [simp]: "dropna (map Fin rs) = map Fin rs"
  by (simp add: dropna_def)

lemma fsum_map_Fin [simp]: "fsum (map Fin rs) = Fin (sum_list rs)"
  by (simp add: fsum_def fsum_Fin)

lemma series_mean_Fin: "rs \<noteq> [] \<Longrightarrow> series_mean (map Fin rs) = Fin (mean_real rs)"
  by (simp add: series_mean_def mean_real_def)

lemma series_std_Fin:
  assumes "rs \<noteq> []"
  shows "series_std (map Fin rs) = Fin (stdev_real rs)"
proof -
  let ?n = "real (length rs)"
  let ?m = "sum_list rs / ?n"
  have n: "?n \<noteq> 0" using assms by simp
  have sq: "map (\<lambda>x. fmul (fsub (Fin ?m) x) (fsub (Fin ?m) x)) (map Fin rs)
      = map Fin (map (\<lambda>r. (r - ?m)\<^sup>2) rs)"
    by (simp add: power2_eq_square algebra_simps)
  have nonneg: "0 \<le> sum_list (map (\<lambda>r. (r - ?m)\<^sup>2) rs) / ?n"
    by (intro divide_nonneg_nonneg sum_list_nonneg) auto
  have "series_std (map Fin rs)
      = fsqrt (fdiv (fsum (map Fin (map (\<lambda>r. (r - ?m)\<^sup>2) rs))) (Fin ?n))"
    using assms n unfolding series_std_def Let_def dropna_Fin fsum_map_Fin
    by (simp only: sq fdiv.simps fsum_map_Fin map_is_Nil_conv length_map if_False)
  also have "\<dots> = fsqrt (fdiv (Fin (sum_list (map (\<lambda>r. (r - ?m)\<^sup>2) rs))) (Fin ?n))"
    by (simp only: fsum_map_Fin)
  also have "\<dots> = Fin (stdev_real rs)"
    using n nonneg by (simp add: stdev_real_def mean_real_def)
  finally show ?thesis .
qed

subsection \<open>The cash and total columns of the accountants\<close>

lemma series_op_eq_Nil [simp]: "(series_op f xs ys = []) = (xs = [] \<or> ys = [])"
  by (cases xs; cases ys) (simp_all add: series_op_def)

lemma series_diff_eq_Nil [simp]: "(series_diff xs = []) = (xs = [])"
  by (cases xs) (simp_all add: series_diff_def shift1_def)



lemma close_cash_0:
  assumes "0 < length (positions self)" "0 < length (Close_col (bars self))"
  shows "cash (MarketOnClosePortfolio_backtest_portfolio self) ! 0 = NaN"
proof -
  let ?xs = "series_op fmul (series_diff (positions self)) (Close_col (bars self))"
  have pos: "positions self \<noteq> []" using assms by auto
  have ne: "?xs \<noteq> []" using assms by simp
  then have len: "0 < length ?xs" by blast
  have "?xs ! 0 = NaN" using assms pos
    by (simp add: nth_series_op series_diff_nth_0)
  then have "cum_from fadd (Fin 0) ?xs ! 0 = NaN"
    using ne by (simp add: cum_from_nth_0)
  then show ?thesis using len
    by (simp add: MarketOnClosePortfolio_backtest_portfolio_def Let_def cumsum_def)
qed







subsection \<open>The latch loop as a fold over the rows seen so far\<close>

lemma armed_iff:
  "armed entry ex t =
     (\<exists>s\<le>t. feq (entry ! s) (Fin 1) \<and> (\<forall>u. s \<le> u \<and> u \<le> t \<longrightarrow> \<not> feq (ex ! u) (Fin 1)))"
  unfolding armed_def list_ex_iff list_all_iff set_upt atLeastLessThan_iff Bex_def Ball_def
    less_Suc_eq_le
  by auto

lemma latch_loop_length [simp]: "length (latch_loop st rows) = length rows"
  by (induction rows arbitrary: st) (simp_all add: Let_def)

lemma latch_loop_nth:
  "t < length rows \<Longrightarrow>
   latch_loop st rows ! t =
     (Fin (of_int (fst (foldl latch_step st (take (Suc t) rows)))),
      Fin (of_int (snd (foldl latch_step st (take (Suc t) rows)))))"
proof (induction rows arbitrary: st t)
  case Nil
  then show ?case by simp
next
  case (Cons r rows)
  then show ?case by (cases t) (simp_all add: Let_def)
qed

lemma latch_step_fst:
  "fst (latch_step st r) = (if row_exit r then 0 else if row_long r then 1 else fst st)"
  by (cases st; cases r) (auto simp: latch_step_def Let_def row_exit_def row_long_def)

lemma latch_step_snd:
  "snd (latch_step st r) = (if row_exit r then 0 else if row_short r then 1 else snd st)"
  by (cases st; cases r) (auto simp: latch_step_def Let_def row_exit_def row_short_def)

lemma fired_since_exit_Nil [simp]: "\<not> fired_since_exit ent ex []"
  by (simp add: fired_since_exit_def)

lemma fired_since_exit_snoc:
  "fired_since_exit ent ex (rows @ [r]) = (\<not> ex r \<and> (ent r \<or> fired_since_exit ent ex rows))"
proof
  assume "fired_since_exit ent ex (rows @ [r])"
  then obtain s where s: "s < Suc (length rows)" "ent ((rows @ [r]) ! s)"
    "\<forall>u. s \<le> u \<and> u < Suc (length rows) \<longrightarrow> \<not> ex ((rows @ [r]) ! u)"
    by (auto simp: fired_since_exit_def)
  from s(3) have ne: "\<not> ex r" using s(1) by (auto dest: spec[of _ "length rows"])
  show "\<not> ex r \<and> (ent r \<or> fired_since_exit ent ex rows)"
  proof (cases "s = length rows")
    case True
    with s(2) ne show ?thesis by simp
  next
    case False
    with s(1) have lt: "s < length rows" by simp
    have "ent (rows ! s)" using s(2) lt by (simp add: nth_append)
    moreover have "\<forall>u. s \<le> u \<and> u < length rows \<longrightarrow> \<not> ex (rows ! u)"
    proof (intro allI impI)
      fix u assume u: "s \<le> u \<and> u < length rows"
      then have "\<not> ex ((rows @ [r]) ! u)" using s(3) by simp
      then show "\<not> ex (rows ! u)" using u by (simp add: nth_append)
    qed
    ultimately show ?thesis using ne lt unfolding fired_since_exit_def by blast
  qed
next
  assume a: "\<not> ex r \<and> (ent r \<or> fired_since_exit ent ex rows)"
  show "fired_since_exit ent ex (rows @ [r])"
  proof (cases "ent r")
    case True
    have "length rows < length (rows @ [r])" by simp
    moreover have "ent ((rows @ [r]) ! length rows)" using True by simp
    moreover have "\<forall>u. length rows \<le> u \<and> u < length (rows @ [r]) \<longrightarrow> \<not> ex ((rows @ [r]) ! u)"
      using a by (auto simp: nth_append less_Suc_eq)
    ultimately show ?thesis unfolding fired_since_exit_def by blast
  next
    case False
    with a obtain s where s: "s < length rows" "ent (rows ! s)"
      "\<forall>u. s \<le> u \<and> u < length rows \<longrightarrow> \<not> ex (rows ! u)"
      by (auto simp: fired_since_exit_def)
    have "s < length (rows @ [r])" using s(1) by simp
    moreover have "ent ((rows @ [r]) ! s)" using s(1,2) by (simp add: nth_append)
    moreover have "\<forall>u. s \<le> u \<and> u < length (rows @ [r]) \<longrightarrow> \<not> ex ((rows @ [r]) ! u)"
      using a s(3) by (auto simp: nth_append less_Suc_eq)
    ultimately show ?thesis unfolding fired_since_exit_def by blast
  qed
qed

lemma foldl_latch_fst:
  "fst (foldl latch_step (0, 0) rows) =
     (if fired_since_exit row_long row_exit rows then 1 else 0)"
  by (induction rows rule: rev_induct) (simp_all add: latch_step_fst fired_since_exit_snoc)

lemma foldl_latch_snd:
  "snd (foldl latch_step (0, 0) rows) =
     (if fired_since_exit row_short row_exit rows then 1 else 0)"
  by (induction rows rule: rev_induct) (simp_all add: latch_step_snd fired_since_exit_snoc)

lemma fired_since_exit_prefix:
  assumes "length ss = length ls" "length es = length ls" "t < length ls"
  shows "fired_since_exit row_long row_exit (take (Suc t) (zip ls (zip ss es))) = armed ls es t"
    and "fired_since_exit row_short row_exit (take (Suc t) (zip ls (zip ss es))) = armed ss es t"
proof -
  let ?pre = "take (Suc t) (zip ls (zip ss es))"
  have lpre: "length ?pre = Suc t" using assms by simp
  have row: "?pre ! u = (ls ! u, ss ! u, es ! u)" if "u \<le> t" for u
    using that assms by simp
  have l: "row_long (?pre ! u) = feq (ls ! u) (Fin 1)" if "u \<le> t" for u
    by (simp only: row[OF that] row_long_def fst_conv)
  have s: "row_short (?pre ! u) = feq (ss ! u) (Fin 1)" if "u \<le> t" for u
    by (simp only: row[OF that] row_short_def fst_conv snd_conv)
  have e: "row_exit (?pre ! u) = feq (es ! u) (Fin 1)" if "u \<le> t" for u
    by (simp only: row[OF that] row_exit_def snd_conv)
  show "fired_since_exit row_long row_exit ?pre = armed ls es t"
    unfolding fired_since_exit_def lpre armed_iff less_Suc_eq_le
    using l e by blast
  show "fired_since_exit row_short row_exit ?pre = armed ss es t"
    unfolding fired_since_exit_def lpre armed_iff less_Suc_eq_le
    using s e by blast
qed

lemma market_latch_nth:
  assumes "length ss = length ls" "length es = length ls" "t < length ls"
  shows "fst (market_latch ls ss es) ! t = (if armed ls es t then Fin 1 else Fin 0)"
    and "snd (market_latch ls ss es) ! t = (if armed ss es t then Fin 1 else Fin 0)"
proof -
  let ?rows = "zip ls (zip ss es)"
  have len: "t < length ?rows" using assms by simp
  have len': "t < length (latch_loop (0, 0) ?rows)" using len by simp
  note out = latch_loop_nth[OF len, of "(0, 0)"]
  have "fst (market_latch ls ss es) ! t = fst (latch_loop (0, 0) ?rows ! t)"
    unfolding market_latch_def Let_def fst_conv by (rule nth_map[OF len'])
  also have "\<dots> = (if armed ls es t then Fin 1 else Fin 0)"
    unfolding out fst_conv foldl_latch_fst fired_since_exit_prefix(1)[OF assms] by simp
  finally show "fst (market_latch ls ss es) ! t = (if armed ls es t then Fin 1 else Fin 0)" .
  have "snd (market_latch ls ss es) ! t = snd (latch_loop (0, 0) ?rows ! t)"
    unfolding market_latch_def Let_def snd_conv by (rule nth_map[OF len'])
  also have "\<dots> = (if armed ss es t then Fin 1 else Fin 0)"
    unfolding out snd_conv foldl_latch_snd fired_since_exit_prefix(2)[OF assms] by simp
  finally show "snd (market_latch ls ss es) ! t = (if armed ss es t then Fin 1 else Fin 0)" .
qed


subsection \<open>Series with NaN rows, cleaned returns and running products\<close>

lemma series_mean_dropna: "dropna xs = map Fin rs \<Longrightarrow> rs \<noteq> [] \<Longrightarrow> series_mean xs = Fin (mean_real rs)"
  using series_mean_Fin[of rs] by (simp add: series_mean_def)

lemma series_std_dropna: "dropna xs = map Fin rs \<Longrightarrow> rs \<noteq> [] \<Longrightarrow> series_std xs = Fin (stdev_real rs)"
  using series_std_Fin[of rs] by (simp add: series_std_def)

lemma length_cleaned_returns [simp]: "length (cleaned_returns xs) = length xs"
  by (simp add: cleaned_returns_def replace_values_def fillna_def)

lemma cleaned_returns_eq_Nil [simp]: "(cleaned_returns xs = []) = (xs = [])"
  by (metis length_cleaned_returns length_0_conv)







subsection \<open>The rows of the drawdown loop\<close>

lemma length_drawdown_loop [simp]: "length (drawdown_loop h d es) = length es"
  by (induction es arbitrary: h d) (simp_all add: Let_def)

lemma py_max_fin:
  "is_fin a \<Longrightarrow> is_fin b \<Longrightarrow>
   is_fin (py_max a b) \<and> fle a (py_max a b) \<and> fle b (py_max a b)
   \<and> fle (Fin 0) (fsub (py_max a b) b)"
  by (auto simp: is_fin_conv py_max_def fle_def)

lemma drawdown_loop_row:
  "t < length es \<Longrightarrow>
   fst (drawdown_loop h d es ! t)
     = py_max (if t = 0 then h else fst (drawdown_loop h d es ! (t - 1))) (es ! t)
   \<and> fst (snd (drawdown_loop h d es ! t)) = fsub (fst (drawdown_loop h d es ! t)) (es ! t)"
proof (induction es arbitrary: h d t)
  case Nil
  then show ?case by simp
next
  case (Cons e es)
  show ?case
  proof (cases t)
    case 0
    then show ?thesis by (simp add: Let_def)
  next
    case (Suc n)
    then have n: "n < length es" using Cons.prems by simp
    show ?thesis
    proof (cases n)
      case 0
      with Suc n Cons.IH[OF n] show ?thesis by (simp add: Let_def)
    next
      case (Suc m)
      with \<open>t = Suc n\<close> n Cons.IH[OF n] show ?thesis by (simp add: Let_def)
    qed
  qed
qed

lemma drawdown_loop_hwm_fin:
  "is_fin h \<Longrightarrow> list_all is_fin es \<Longrightarrow> t < length es \<Longrightarrow> is_fin (fst (drawdown_loop h d es ! t))"
proof (induction es arbitrary: h d t)
  case Nil
  then show ?case by simp
next
  case (Cons e es)
  then have m: "is_fin (py_max h e)" by (simp add: py_max_fin)
  show ?case
  proof (cases t)
    case 0
    with m show ?thesis by (simp add: Let_def)
  next
    case (Suc n)
    with Cons.prems Cons.IH[OF m, of n] show ?thesis by (simp add: Let_def)
  qed
qed

section \<open>The drawdown scan\<close>

lemmas drawdown_defs =
  create_drawdowns_def drawdown_series_def duration_series_def drawdown_rows_def
  hwm_list_def series_max_def dropna_def py_max_def fsub_def Let_def

text \<open>
  Claim C2, evaluated on the equity curve \<open>[100, 90]\<close>: the high-water mark list starts
  with the constant 0, not with the first equity value 100, so \<open>hwm[0] < equity[0]\<close>;
  the loop starts at \<open>t = 1\<close>, so \<open>drawdown[0]\<close> is never written and stays NaN.
\<close>

theorem hwm_seed_is_zero:
  "hwm_list [Fin 100, Fin 90] = [Fin 0, Fin 90]
   \<and> hwm_list [Fin 100, Fin 90] ! 0 \<noteq> [Fin 100, Fin 90] ! 0
   \<and> flt (hwm_list [Fin 100, Fin 90] ! 0) ([Fin 100, Fin 90] ! 0)
   \<and> drawdown_series [Fin 100, Fin 90] = [NaN, Fin 0]"
  by (simp add: drawdown_defs)

text \<open>
  Claim C4, evaluated on the equity curve \<open>[100, 90, 95, 80, 85, 120]\<close>: the scan never
  looks at the first value 100, its high-water marks are \<open>0, 90, 95, 95, 95, 120\<close>, and
  it returns the maximum drawdown 15 and the maximum duration 2.
\<close>

theorem create_drawdowns_scenario:
  "create_drawdowns [Fin 100, Fin 90, Fin 95, Fin 80, Fin 85, Fin 120] = (Fin 15, Fin 2)
   \<and> hwm_list [Fin 100, Fin 90, Fin 95, Fin 80, Fin 85, Fin 120]
       = [Fin 0, Fin 90, Fin 95, Fin 95, Fin 95, Fin 120]"
  by (simp add: drawdown_defs)

text \<open>
  What the scan does keep from bar 1 on, for an equity curve of finite values: the
  high-water mark is the running maximum of the previous mark and the current equity,
  it never decreases, it is at least the current equity, and the drawdown is their
  difference, which is not negative.
\<close>

lemma drawdown_scan_from_bar_1:
  assumes "list_all is_fin equity_curve" "0 < t" "t < length equity_curve"
  shows "hwm_list equity_curve ! t = py_max (hwm_list equity_curve ! (t - 1)) (equity_curve ! t)
       \<and> fle (hwm_list equity_curve ! (t - 1)) (hwm_list equity_curve ! t)
       \<and> fle (equity_curve ! t) (hwm_list equity_curve ! t)
       \<and> drawdown_series equity_curve ! t = fsub (hwm_list equity_curve ! t) (equity_curve ! t)
       \<and> fle (Fin 0) (drawdown_series equity_curve ! t)"
proof -
  obtain e0 es where eq: "equity_curve = e0 # es" using assms(3) by (cases equity_curve) auto
  obtain n where t: "t = Suc n" using assms(2) by (cases t) auto
  have n: "n < length es" using assms(3) eq t by simp
  have fin: "list_all is_fin es" using assms(1) eq by simp
  let ?rows = "drawdown_loop (Fin 0) NaN es"
  let ?prev = "if n = 0 then Fin 0 else fst (?rows ! (n - 1))"
  have prev_eq: "hwm_list equity_curve ! (t - 1) = ?prev"
    using eq t n by (cases n) (simp_all add: hwm_list_def drawdown_rows_def)
  have cur_eq: "hwm_list equity_curve ! t = fst (?rows ! n)"
    using eq t n by (simp add: hwm_list_def drawdown_rows_def)
  have dd_eq: "drawdown_series equity_curve ! t = fst (snd (?rows ! n))"
    using eq t n by (simp add: drawdown_series_def drawdown_rows_def)
  have e_eq: "equity_curve ! t = es ! n" using eq t by simp
  have pf: "is_fin ?prev"
    using drawdown_loop_hwm_fin[of "Fin 0" es "n - 1" NaN] fin n by (cases n) simp_all
  have ef: "is_fin (es ! n)" using fin n by (simp add: list_all_length)
  note row = drawdown_loop_row[OF n, of "Fin 0" NaN]
  show ?thesis
    unfolding prev_eq cur_eq dd_eq e_eq using row py_max_fin[OF pf ef] by simp
qed

text \<open>
  The loop body on the curve of claim C4, started from the first equity value 100 and
  duration 0 instead of the source's 0 and NaN: the drawdowns are \<open>10, 5, 20, 15, 0\<close>
  and the durations \<open>1, 2, 3, 4, 0\<close>.
\<close>

lemma drawdown_loop_seeded_at_first_value:
  "drawdown_loop (Fin 100) (Fin 0) [Fin 90, Fin 95, Fin 80, Fin 85, Fin 120]
   = [(Fin 100, Fin 10, Fin 1), (Fin 100, Fin 5, Fin 2), (Fin 100, Fin 20, Fin 3),
      (Fin 100, Fin 15, Fin 4), (Fin 120, Fin 0, Fin 0)]"
  by (simp add: py_max_def Let_def)

section \<open>The market latch\<close>

text \<open>
  Claim C6 as stated fails: on the triggers \<open>enter_long = [0,1,0,0,0]\<close>,
  \<open>enter_short = [0,0,0,1,0]\<close>, \<open>exit = [0,0,1,0,0]\<close> the latch does not output
  \<open>long_market = [0,1,1,0,0]\<close>.
\<close>

theorem latch_scenario_counterexample:
  "market_latch [Fin 0, Fin 1, Fin 0, Fin 0, Fin 0] [Fin 0, Fin 0, Fin 0, Fin 1, Fin 0]
     [Fin 0, Fin 0, Fin 1, Fin 0, Fin 0]
   \<noteq> ([Fin 0, Fin 1, Fin 1, Fin 0, Fin 0], [Fin 0, Fin 0, Fin 0, Fin 1, Fin 1])"
  by (simp add: market_latch_def latch_step_def Let_def)

text \<open>
  Claim C6, amended: on those triggers the exit at bar 2 clears the long flag on bar 2
  itself, so the latch outputs \<open>long_market = [0,1,0,0,0]\<close> and
  \<open>short_market = [0,0,0,1,1]\<close>. The z-scores \<open>[1.5, -2.5, 0.5, 2.5, 1.5]\<close> with the
  default thresholds 2 and 1 produce exactly these triggers and outputs.
\<close>

theorem latch_scenario:
  "market_latch [Fin 0, Fin 1, Fin 0, Fin 0, Fin 0] [Fin 0, Fin 0, Fin 0, Fin 1, Fin 0]
     [Fin 0, Fin 0, Fin 1, Fin 0, Fin 0]
   = ([Fin 0, Fin 1, Fin 0, Fin 0, Fin 0], [Fin 0, Fin 0, Fin 0, Fin 1, Fin 1])
   \<and> create_long_short_market_signals
       \<lparr>sym1_close = [], sym2_close = [],
        zscore = [Fin 1.5, Fin (- 2.5), Fin 0.5, Fin 2.5, Fin 1.5],
        longs = [], shorts = [], exits = [], long_market = [], short_market = []\<rparr> 2 1
     = \<lparr>sym1_close = [], sym2_close = [],
        zscore = [Fin 1.5, Fin (- 2.5), Fin 0.5, Fin 2.5, Fin 1.5],
        longs = [Fin 0, Fin 1, Fin 0, Fin 0, Fin 0],
        shorts = [Fin 0, Fin 0, Fin 0, Fin 1, Fin 0],
        exits = [Fin 0, Fin 0, Fin 1, Fin 0, Fin 0],
        long_market = [Fin 0, Fin 1, Fin 0, Fin 0, Fin 0],
        short_market = [Fin 0, Fin 0, Fin 0, Fin 1, Fin 1]\<rparr>"
  by (simp add: create_long_short_market_signals_def market_latch_def latch_step_def
      bool_to_float_def fle_def Let_def)

text \<open>
  Claim C3 as stated fails: an enter-long on bar 0 followed by an enter-short on bar 1,
  with no exit, leaves both flags set on bar 1, so the product is 1. The z-scores
  \<open>[-2.5, 2.5]\<close> with the default thresholds 2 and 1 produce these triggers.
\<close>

theorem latch_flags_exclusive_counterexample:
  "market_latch [Fin 1, Fin 0] [Fin 0, Fin 1] [Fin 0, Fin 0] = ([Fin 1, Fin 1], [Fin 0, Fin 1])
   \<and> fmul (fst (market_latch [Fin 1, Fin 0] [Fin 0, Fin 1] [Fin 0, Fin 0]) ! 1)
          (snd (market_latch [Fin 1, Fin 0] [Fin 0, Fin 1] [Fin 0, Fin 0]) ! 1) = Fin 1
   \<and> long_market (create_long_short_market_signals
        \<lparr>sym1_close = [], sym2_close = [], zscore = [Fin (- 2.5), Fin 2.5],
         longs = [], shorts = [], exits = [], long_market = [], short_market = []\<rparr> 2 1)
       = [Fin 1, Fin 1]
   \<and> short_market (create_long_short_market_signals
        \<lparr>sym1_close = [], sym2_close = [], zscore = [Fin (- 2.5), Fin 2.5],
         longs = [], shorts = [], exits = [], long_market = [], short_market = []\<rparr> 2 1)
       = [Fin 0, Fin 1]"
  by (simp add: create_long_short_market_signals_def market_latch_def latch_step_def
      bool_to_float_def fle_def Let_def)

text \<open>
  Claim C3, amended: the two flags are independent latches. On aligned trigger series,
  \<open>long_market[t]\<close> is 1 exactly when enter-long has fired on some bar \<open>s \<le> t\<close> with
  no exit on the bars \<open>s..t\<close>, and 0 otherwise; likewise \<open>short_market[t]\<close> for
  enter-short. Hence \<open>long_market[t] * short_market[t] == 0\<close> holds exactly when not
  both entries have fired since the last exit.
\<close>

theorem latch_flags_exclusive_iff:
  assumes "length ss = length ls" "length es = length ls" "t < length ls"
  shows "fst (market_latch ls ss es) ! t = (if armed ls es t then Fin 1 else Fin 0)
       \<and> snd (market_latch ls ss es) ! t = (if armed ss es t then Fin 1 else Fin 0)
       \<and> feq (fmul (fst (market_latch ls ss es) ! t) (snd (market_latch ls ss es) ! t)) (Fin 0)
           = (\<not> (armed ls es t \<and> armed ss es t))"
  using market_latch_nth[OF assms] by simp

text \<open>The amended claim C3 at the triggers of the counterexample, bar 1.\<close>

theorem latch_flags_exclusive_iff_witness:
  "length [Fin 0, Fin 1] = length [Fin 1, Fin 0 :: float64]
   \<and> length [Fin 0, Fin 0] = length [Fin 1, Fin 0 :: float64]
   \<and> (1::nat) < length [Fin 1, Fin 0 :: float64]
   \<and> armed [Fin 1, Fin 0] [Fin 0, Fin 0] 1
   \<and> armed [Fin 0, Fin 1] [Fin 0, Fin 0] 1
   \<and> \<not> feq (fmul (fst (market_latch [Fin 1, Fin 0] [Fin 0, Fin 1] [Fin 0, Fin 0]) ! 1)
               (snd (market_latch [Fin 1, Fin 0] [Fin 0, Fin 1] [Fin 0, Fin 0]) ! 1)) (Fin 0)"
proof -
  have a: "armed [Fin 1, Fin 0] [Fin 0, Fin 0] 1" "armed [Fin 0, Fin 1] [Fin 0, Fin 0] 1"
    by (simp_all add: armed_def upt_rec)
  show ?thesis
    using latch_flags_exclusive_iff[of "[Fin 0, Fin 1]" "[Fin 1, Fin 0]" "[Fin 0, Fin 0]" 1] a
    by simp
qed

section \<open>The portfolio accountants\<close>







section \<open>The position sizer\<close>

text \<open>
  Claim C9 as stated fails: on the signals \<open>[1, 2]\<close> both classes return the positions
  \<open>[100, 200]\<close>, where the specification's sizer rejects the input with
  \<open>InvalidSignalValue\<close>.
\<close>

theorem generate_positions_counterexample:
  "MarketOnOpenPortfolio_generate_positions [Fin 1, Fin 2] = [Fin 100, Fin 200]
   \<and> MarketOnClosePortfolio_generate_positions [Fin 1, Fin 2] = [Fin 100, Fin 200]
   \<and> size_positions_spec [Fin 1, Fin 2] 100 = Inl InvalidSignalValue
   \<and> size_positions_spec [Fin 1, Fin 2] 100
       \<noteq> Inr (MarketOnOpenPortfolio_generate_positions [Fin 1, Fin 2])"
  by (simp add: MarketOnOpenPortfolio_generate_positions_def
      MarketOnClosePortfolio_generate_positions_def size_positions_spec_def valid_signal_def)

text \<open>
  Claim C9, amended: \<open>generate_positions\<close> checks nothing and never rejects. For every
  signal series, inside \<open>{-1, 0, 1}\<close> or not, it returns a series of the same length
  with \<open>position[t] = 100 * signal[t]\<close> for every \<open>t\<close>; on signals within
  \<open>{-1, 0, 1}\<close> this is what the specification's sizer returns for lot size 100.
\<close>

theorem generate_positions_scales_every_signal:
  "length (MarketOnOpenPortfolio_generate_positions sigs) = length sigs
   \<and> length (MarketOnClosePortfolio_generate_positions sigs) = length sigs
   \<and> (t < length sigs \<longrightarrow>
        MarketOnOpenPortfolio_generate_positions sigs ! t = fmul (Fin 100) (sigs ! t)
        \<and> MarketOnClosePortfolio_generate_positions sigs ! t = fmul (Fin 100) (sigs ! t))
   \<and> (list_all valid_signal sigs \<longrightarrow>
        size_positions_spec sigs 100 = Inr (MarketOnOpenPortfolio_generate_positions sigs)
        \<and> size_positions_spec sigs 100 = Inr (MarketOnClosePortfolio_generate_positions sigs))
   \<and> positions (MarketOnOpenPortfolio_init b sigs capital)
        = MarketOnOpenPortfolio_generate_positions sigs
   \<and> positions (MarketOnClosePortfolio_init b sigs capital)
        = MarketOnClosePortfolio_generate_positions sigs"
  by (simp add: MarketOnOpenPortfolio_generate_positions_def
      MarketOnClosePortfolio_generate_positions_def size_positions_spec_def
      MarketOnOpenPortfolio_init_def MarketOnClosePortfolio_init_def)

text \<open>The amended claim C9 on the signals \<open>[1, 2]\<close> at bar 1 and on \<open>[1, 0, -1]\<close>.\<close>

theorem generate_positions_scales_every_signal_witness:
  "(1::nat) < length [Fin 1, Fin 2]
   \<and> MarketOnOpenPortfolio_generate_positions [Fin 1, Fin 2] ! 1 = Fin 200
   \<and> MarketOnClosePortfolio_generate_positions [Fin 1, Fin 2] ! 1 = Fin 200
   \<and> list_all valid_signal [Fin 1, Fin 0, Fin (- 1)]
   \<and> size_positions_spec [Fin 1, Fin 0, Fin (- 1)] 100
        = Inr (MarketOnOpenPortfolio_generate_positions [Fin 1, Fin 0, Fin (- 1)])
   \<and> MarketOnOpenPortfolio_generate_positions [Fin 1, Fin 0, Fin (- 1)]
        = [Fin 100, Fin 0, Fin (- 100)]"
proof -
  have v: "list_all valid_signal [Fin 1, Fin 0, Fin (- 1)]"
    by (simp add: valid_signal_def)
  have e: "MarketOnOpenPortfolio_generate_positions [Fin 1, Fin 0, Fin (- 1)]
        = [Fin 100, Fin 0, Fin (- 100)]"
    by (simp add: MarketOnOpenPortfolio_generate_positions_def)
  show ?thesis
    using generate_positions_scales_every_signal[of "[Fin 1, Fin 2]" 1]
      generate_positions_scales_every_signal[of "[Fin 1, Fin 0, Fin (- 1)]" 0] v e
    by simp
qed

section \<open>The Sharpe ratio\<close>

text \<open>
  Claim C7: for a returns series whose values other than NaN are finite, at least one
  in number, with a standard deviation that is not zero, and a non-negative number of
  periods, the Sharpe ratio is \<open>sqrt(periods) * mean(returns) / stdev(returns)\<close>,
  where mean and population standard deviation are taken over the values that are not
  NaN; on the returns \<open>[0.01, -0.01, 0.01, -0.01]\<close> with 252 periods it is 0.
\<close>

theorem sharpe_ratio_formula:
  "(dropna rets = map Fin rs \<and> rs \<noteq> [] \<and> 0 \<le> periods \<and> stdev_real rs \<noteq> 0 \<longrightarrow>
      create_sharpe_ratio rets periods
        = Fin (sqrt periods * mean_real rs / stdev_real rs))
   \<and> create_sharpe_ratio [Fin 0.01, Fin (- 0.01), Fin 0.01, Fin (- 0.01)] 252 = Fin 0"
proof (intro conjI impI)
  assume a: "dropna rets = map Fin rs \<and> rs \<noteq> [] \<and> 0 \<le> periods \<and> stdev_real rs \<noteq> 0"
  then show "create_sharpe_ratio rets periods
        = Fin (sqrt periods * mean_real rs / stdev_real rs)"
    by (simp add: create_sharpe_ratio_def series_mean_dropna series_std_dropna)
next
  show "create_sharpe_ratio [Fin 0.01, Fin (- 0.01), Fin 0.01, Fin (- 0.01)] 252 = Fin 0"
    by (simp add: create_sharpe_ratio_def series_mean_def series_std_def dropna_def fsum_def
        fsub_def Let_def)
qed

text \<open>Claim C7 on the returns \<open>[NaN, 0.03, 0.01]\<close>, whose mean is 0.02.\<close>

theorem sharpe_ratio_formula_witness:
  "dropna [NaN, Fin 0.03, Fin 0.01] = map Fin [0.03, 0.01]
   \<and> [0.03, 0.01 :: real] \<noteq> [] \<and> (0::real) \<le> 252 \<and> stdev_real [0.03, 0.01] \<noteq> 0
   \<and> mean_real [0.03, 0.01] = 0.02
   \<and> create_sharpe_ratio [NaN, Fin 0.03, Fin 0.01] 252
       = Fin (sqrt 252 * mean_real [0.03, 0.01] / stdev_real [0.03, 0.01])"
proof -
  have s: "stdev_real [0.03, 0.01] \<noteq> 0"
    by (simp add: stdev_real_def mean_real_def)
  have d: "dropna [NaN, Fin 0.03, Fin 0.01] = map Fin [0.03, 0.01]"
    by (simp add: dropna_def)
  show ?thesis
    using sharpe_ratio_formula[of "[NaN, Fin 0.03, Fin 0.01]" "[0.03, 0.01]" 252] s d
    by (simp add: mean_real_def)
qed



section \<open>The pairs portfolio\<close>



end
